theory Spec2Isabelle
  imports Complex_Main
begin

section \<open>Goal planner: data model (types/goal.ts)\<close>

text \<open>
  JavaScript numbers are modelled as mathematical reals (\<^typ>\<open>real\<close>), and as
  \<^typ>\<open>int\<close> where the code only ever holds whole numbers (millisecond time
  values, day and month counts). Rounding of IEEE doubles is not modelled. The one
  non-number the goal code can produce, \<open>NaN\<close> from an unparsable date, is the value
  \<open>None\<close> of an option type.
\<close>

record GoalBase =
  name :: string
  target_amount :: real
  target_date :: string
  current_savings :: real
  monthly_contribution :: real
  risk_profile :: "string option"

record YearlyProjection =
  year :: int
  amount :: real
  contribution :: real
  growth :: real

record ScenarioProjections =
  median :: "YearlyProjection list"
  worst :: "YearlyProjection list"
  best :: "YearlyProjection list"

record SimulationResult =
  success_probability :: real
  gap_amount :: real
  projected_amount_at_deadline :: real
  yearly_projections :: "YearlyProjection list"
  scenarios :: ScenarioProjections
  on_track :: bool

text \<open>The selector \<open>scenarioView\<close> of the page: \<open>"median" | "best" | "worst"\<close>.\<close>

datatype scenarioView = Median | Best | Worst

fun scenario_of :: "ScenarioProjections \<Rightarrow> scenarioView \<Rightarrow> YearlyProjection list" where
  "scenario_of sc Median = median sc"
| "scenario_of sc Best = best sc"
| "scenario_of sc Worst = worst sc"

datatype js_error = TypeError

section \<open>GoalService.calculateMonths (services/goalService.ts)\<close>

text \<open>
  \<open>new Date(targetDate).getTime()\<close> is a builtin: it is the parameter \<open>parse\<close>,
  giving the time value in milliseconds, or \<open>None\<close> for an invalid date (whose time
  value is \<open>NaN\<close>). \<open>today\<close> is the time value of \<open>new Date()\<close> at the call.
  \<open>Math.abs\<close>, \<open>Math.ceil\<close>, \<open>Math.floor\<close> and \<open>Math.max\<close> all
  return \<open>NaN\<close> on \<open>NaN\<close>, so an invalid date gives \<open>None\<close>.
\<close>

definition calculateMonths :: "(string \<Rightarrow> int option) \<Rightarrow> int \<Rightarrow> string \<Rightarrow> int option" where
  "calculateMonths parse today targetDate =
     (case parse targetDate of
        None \<Rightarrow> None
      | Some target \<Rightarrow>
          (let diffTime = \<bar>target - today\<bar>;
               diffDays = \<lceil>real_of_int diffTime / (1000 * 60 * 60 * 24)\<rceil>
           in Some (max 1 \<lfloor>real_of_int diffDays / 30.44\<rfloor>)))"

section \<open>GoalPlanner page (pages/GoalPlanner.tsx)\<close>

record ScenarioMetrics =
  probability :: int
  gap :: real
  final_amount :: real
  isGood :: "bool option"
  isScenarioGood :: "bool option"
  monthlyNeeded :: real

text \<open>\<open>Math.round\<close>: the nearest integer, halves rounded up.\<close>

definition Math_round :: "real \<Rightarrow> int" where
  "Math_round x = \<lfloor>x + 1 / 2\<rfloor>"

text \<open>
  \<open>getScenarioMetrics\<close>. The field \<open>amount\<close> of the returned object is
  \<open>final_amount\<close> here (the name is taken by the yearly projection). Reading
  \<open>.amount\<close> of the last element of an empty projection list throws a TypeError.
  The top-up for a strictly positive gap is \<open>gap / denom\<close> with
  \<open>r = 0.06 / 12\<close> and \<open>denom = ((1 + r) ** months - 1) / r\<close>, when
  \<open>denom > 0\<close>; with \<open>months = NaN\<close> that comparison is false and the value
  stays 0. The early return carries \<open>isGood\<close>, the full one \<open>isScenarioGood\<close>.
\<close>

definition getScenarioMetrics ::
  "(string \<Rightarrow> int option) \<Rightarrow> int \<Rightarrow> GoalBase option \<Rightarrow> SimulationResult option \<Rightarrow>
   scenarioView \<Rightarrow> js_error + ScenarioMetrics" where
  "getScenarioMetrics parse today goal simulation view =
     (case (simulation, goal) of
        (Some sim, Some g) \<Rightarrow>
          (let projections = scenario_of (scenarios sim) view in
           if projections = [] then Inl TypeError
           else
             (let finalAmount = amount (last projections);
                  gp = max 0 (target_amount g - finalAmount);
                  needed =
                    (if gp > 0 then
                       (let r = 0.06 / 12 in
                        case calculateMonths parse today (target_date g) of
                          None \<Rightarrow> 0
                        | Some months \<Rightarrow>
                            (let denom = (power_int (1 + r) months - 1) / r
                             in if denom > 0 then gp / denom else 0))
                     else 0)
              in Inr \<lparr>probability = Math_round (success_probability sim * 100),
                      gap = gp, final_amount = finalAmount, isGood = None,
                      isScenarioGood = Some (gp \<le> 0), monthlyNeeded = needed\<rparr>))
      | _ \<Rightarrow> Inr \<lparr>probability = 0, gap = 0, final_amount = 0, isGood = Some False,
                  isScenarioGood = None, monthlyNeeded = 0\<rparr>)"

text \<open>
  \<open>runSimulation\<close>. The call \<open>GoalService.simulateGoal\<close> posts the goal to the
  simulate endpoint, which is not part of the frontend: its answer is the parameter
  \<open>simulateGoal\<close> (\<open>Inl\<close> a rejected request, \<open>Inr\<close> the response body).
  The function sets \<open>loading\<close>, stores result, goal and slider value on success, only
  logs on failure, and clears \<open>loading\<close> in either case.
\<close>

record PlannerState =
  goal :: "GoalBase option"
  simulation :: "SimulationResult option"
  loading :: bool
  simMonthly :: real

definition runSimulation ::
  "(GoalBase \<Rightarrow> string + SimulationResult) \<Rightarrow> PlannerState \<Rightarrow> GoalBase \<Rightarrow> PlannerState" where
  "runSimulation simulateGoal st goalData =
     (let st1 = st\<lparr>loading := True\<rparr> in
      case simulateGoal goalData of
        Inr result \<Rightarrow>
          st1\<lparr>simulation := Some result, goal := Some goalData,
               simMonthly := monthly_contribution goalData, loading := False\<rparr>
      | Inl e \<Rightarrow> st1\<lparr>loading := False\<rparr>)"

section \<open>Server-sent event stream hook (hooks/useSSEStream.ts)\<close>

text \<open>
  A message of the stream, \<open>SSEMessage\<close>: \<open>type\<close>, and the optional \<open>message\<close>,
  \<open>data\<close> and \<open>progress\<close> (\<open>None\<close> is \<open>undefined\<close>). The payload type
  \<open>'d\<close> is the \<open>any\<close> of the source.
\<close>

record 'd SSEMessage =
  m_type :: string
  m_message :: "string option"
  m_data :: "'d option"
  m_progress :: "real option"

text \<open>The state of the hook, \<open>UseSSEStreamState\<close>.\<close>

record 'd UseSSEStreamState =
  logs :: "string list"
  isStreaming :: bool
  result :: "'d option"
  error :: "string option"
  progress :: "real option"

text \<open>
  The optional callbacks of \<open>UseSSEStreamOptions\<close> are recorded as a trace of their
  invocations, in order.
\<close>

datatype 'd callback = OnProgress real | OnLog string | OnComplete "'d option" | OnError string

text \<open>
  What one call of \<open>stream\<close> holds while it runs: the hook state, the callback trace,
  and the locals \<open>resultData\<close> and \<open>messageBuffer\<close>.
\<close>

record 'd Run =
  hook :: "'d UseSSEStreamState"
  callbacks :: "'d callback list"
  resultData :: "'d option"
  messageBuffer :: string

text \<open>
  The log lines carry emoji; strings are byte lists, so they are written as their UTF-8
  bytes: a check mark, a cross mark and a warning sign.
\<close>

definition complete_log :: string where
  "complete_log = [CHR 0xE2, CHR 0x9C, CHR 0x85] @ '' Complete!''"

definition error_log :: "string \<Rightarrow> string" where
  "error_log errorMsg = [CHR 0xE2, CHR 0x9D, CHR 0x8C] @ '' Error: '' @ errorMsg"

definition failure_log :: "string \<Rightarrow> string" where
  "failure_log errorMsg = [CHR 0xE2, CHR 0x9D, CHR 0x8C] @ '' '' @ errorMsg"

definition cancelled_log :: string where
  "cancelled_log = [CHR 0xE2, CHR 0x9A, CHR 0xA0, CHR 0xEF, CHR 0xB8, CHR 0x8F] @ '' Cancelled''"

text \<open>
  The two steps shared by the \<open>log\<close>/\<open>info\<close> and the \<open>progress\<close> cases:
  \<open>if (message.progress !== undefined)\<close> and \<open>if (message.message)\<close> (an empty
  string is falsy).
\<close>

definition noteProgress :: "'d SSEMessage \<Rightarrow> 'd Run \<Rightarrow> 'd Run" where
  "noteProgress msg r =
     (case m_progress msg of
        None \<Rightarrow> r
      | Some p \<Rightarrow> r\<lparr>hook := (hook r)\<lparr>progress := Some p\<rparr>,
                     callbacks := callbacks r @ [OnProgress p]\<rparr>)"

definition noteMessage :: "'d SSEMessage \<Rightarrow> 'd Run \<Rightarrow> 'd Run" where
  "noteMessage msg r =
     (case m_message msg of
        None \<Rightarrow> r
      | Some s \<Rightarrow>
          if s = [] then r
          else r\<lparr>hook := (hook r)\<lparr>logs := logs (hook r) @ [s]\<rparr>,
                 callbacks := callbacks r @ [OnLog s]\<rparr>)"

text \<open>The \<open>switch (message.type)\<close>; it has no default case.\<close>

definition handleMessage :: "'d Run \<Rightarrow> 'd SSEMessage \<Rightarrow> 'd Run" where
  "handleMessage r msg =
     (if m_type msg = ''log'' \<or> m_type msg = ''info'' then
        noteMessage msg (noteProgress msg r)
      else if m_type msg = ''progress'' then
        noteMessage msg (noteProgress msg r)
      else if m_type msg = ''complete'' then
        r\<lparr>resultData := m_data msg,
          hook := (hook r)\<lparr>logs := logs (hook r) @ [complete_log], result := m_data msg,
                           isStreaming := False, progress := Some 100\<rparr>,
          callbacks := callbacks r @ [OnComplete (m_data msg)]\<rparr>
      else if m_type msg = ''error'' then
        (let errorMsg = (case m_message msg of
                           None \<Rightarrow> ''Unknown error''
                         | Some s \<Rightarrow> if s = [] then ''Unknown error'' else s)
         in r\<lparr>hook := (hook r)\<lparr>logs := logs (hook r) @ [error_log errorMsg],
                              error := Some errorMsg, isStreaming := False\<rparr>,
              callbacks := callbacks r @ [OnError errorMsg]\<rparr>)
      else r)"

text \<open>
  One line of the buffer. \<open>JSON.parse\<close> is the parameter \<open>parse\<close>; \<open>None\<close> stands
  for a line whose handling throws (invalid JSON, or \<open>null\<close>, whose \<open>.type\<close> cannot
  be read): the inner \<open>catch\<close> logs to the console and the state is unchanged.
\<close>

definition processLine :: "(string \<Rightarrow> 'd SSEMessage option) \<Rightarrow> 'd Run \<Rightarrow> string \<Rightarrow> 'd Run" where
  "processLine parse r line =
     (if take 6 line = ''data: '' then
        (case parse (drop 6 line) of
           Some msg \<Rightarrow> handleMessage r msg
         | None \<Rightarrow> r)
      else r)"

text \<open>\<open>s.split('\n')\<close>: never empty; the last element is what follows the last line feed.\<close>

fun split_lines :: "string \<Rightarrow> string list" where
  "split_lines [] = [[]]"
| "split_lines (c # cs) =
     (if c = CHR 0x0A then [] # split_lines cs
      else (case split_lines cs of
              l # ls \<Rightarrow> (c # l) # ls
            | [] \<Rightarrow> [[c]]))"

text \<open>
  One turn of the read loop on a chunk: append to the buffer, split, keep the last
  (incomplete) line as the new buffer, and handle the others in order. The chunk is
  the text that \<open>decoder.decode(value, {stream: true})\<close> returns for the bytes
  read, written in UTF-8 (a string is a list of bytes here). The streaming
  \<open>TextDecoder\<close> is a builtin: it keeps an unfinished multi-byte sequence for the
  next call and drops a byte order mark at the start of the stream, and the texts it
  returns add up to the decoding of all bytes received, however they were cut into
  chunks.
\<close>

definition readChunk :: "(string \<Rightarrow> 'd SSEMessage option) \<Rightarrow> 'd Run \<Rightarrow> string \<Rightarrow> 'd Run" where
  "readChunk parse r chunk =
     (let lines = split_lines (messageBuffer r @ chunk)
      in foldl (processLine parse) (r\<lparr>messageBuffer := last lines\<rparr>) (butlast lines))"

text \<open>
  How the \<open>try\<close> block of \<open>stream\<close> ends after the chunks it has read: the reader
  reports \<open>done\<close>, the request is aborted, or something throws with a message (the
  fetch itself, a response that is not ok, a missing body, a failing read).
\<close>

datatype stream_end = Done | Aborted | Failed string

text \<open>
  The head of \<open>stream\<close>, before the request is sent: the state is reset when
  \<open>autoReset\<close> is set, and otherwise only \<open>isStreaming\<close> and \<open>error\<close> are;
  \<open>resultData\<close> is \<open>null\<close> and the buffer is empty.
\<close>

definition stream_start :: "bool \<Rightarrow> 'd UseSSEStreamState \<Rightarrow> 'd Run" where
  "stream_start autoReset st =
     \<lparr>hook = (if autoReset
              then \<lparr>logs = [], isStreaming = True, result = None, error = None,
                    progress = None\<rparr>
              else st\<lparr>isStreaming := True, error := None\<rparr>),
      callbacks = [], resultData = None, messageBuffer = []\<rparr>"

definition stream ::
  "bool \<Rightarrow> (string \<Rightarrow> 'd SSEMessage option) \<Rightarrow> 'd UseSSEStreamState \<Rightarrow> string list \<Rightarrow>
   stream_end \<Rightarrow> 'd Run" where
  "stream autoReset parse st chunks ending =
     (let r = foldl (readChunk parse) (stream_start autoReset st) chunks
      in case ending of
           Done \<Rightarrow> r
         | Aborted \<Rightarrow>
             r\<lparr>hook := (hook r)\<lparr>logs := logs (hook r) @ [cancelled_log], isStreaming := False\<rparr>\<rparr>
         | Failed errorMsg \<Rightarrow>
             r\<lparr>hook := (hook r)\<lparr>logs := logs (hook r) @ [failure_log errorMsg],
                                error := Some errorMsg, isStreaming := False\<rparr>,
               callbacks := callbacks r @ [OnError errorMsg]\<rparr>)"








section \<open>Portfolio page (pages/Portfolio.tsx, state/portfolioStore.ts)\<close>

text \<open>
  The parts of the optimize response the page reads. \<open>weights\<close> is a JSON object
  from ticker to weight, kept as the list of its entries.
\<close>

record PortfolioConfig =
  weights :: "(string \<times> real) list"
  selected_assets :: "string list"

record OptimizeResults =
  portfolio_config :: PortfolioConfig

record OptimizeResponse =
  results :: OptimizeResults
  table_data :: "string list"
  beta :: "real option"
  sentiment :: "(string \<times> real) list option"

record MCData =
  time_points :: "int list"
  paths :: "real list list"
  percentile_paths :: "(string \<times> real list) list"

text \<open>
  The store \<open>PortfolioState\<close> (fields prefixed \<open>p_\<close>) and the two loading flags of
  the page.
\<close>

record PortfolioState =
  p_risk :: "real list"
  p_amount :: real
  p_horizon :: real
  p_assets :: real
  p_result :: "OptimizeResults option"
  p_tableData :: "string list"
  p_beta :: "real option"
  p_mcData :: "MCData option"
  p_sentiment :: "(string \<times> real) list option"

record PortfolioPage =
  store :: PortfolioState
  p_loading :: bool
  p_mcLoading :: bool

text \<open>
  The request bodies. \<open>risk[0]\<close> of an empty array is \<open>undefined\<close> (\<open>None\<close>);
  \<open>Number\<close> of a number is that number.
\<close>

record OptimizeRequest =
  risk_tolerance :: "real option"
  investment_amount :: real
  investment_horizon :: real
  num_assets :: real

record MonteCarloRequest =
  mc_weights :: "(string \<times> real) list"
  mc_investment_amount :: real
  mc_investment_horizon :: real
  mc_tickers :: "string list"

datatype portfolio_call = PostOptimize OptimizeRequest | PostMonteCarlo MonteCarloRequest

text \<open>
  \<open>runMonteCarlo\<close>. \<open>amount\<close> and \<open>horizon\<close> are the values the render captured
  (\<open>render\<close>); the endpoint's answer is the parameter \<open>post_mc\<close>. The function
  returns the page state and the requests it sent.
\<close>

definition runMonteCarlo ::
  "(MonteCarloRequest \<Rightarrow> string + MCData) \<Rightarrow> PortfolioPage \<Rightarrow> PortfolioPage \<Rightarrow>
   (string \<times> real) list \<Rightarrow> string list \<Rightarrow> PortfolioPage \<times> portfolio_call list" where
  "runMonteCarlo post_mc render pg ws tickers =
     (let pg1 = pg\<lparr>p_mcLoading := True\<rparr>;
          req = \<lparr>mc_weights = ws, mc_investment_amount = p_amount (store render),
                 mc_investment_horizon = p_horizon (store render), mc_tickers = tickers\<rparr>
      in case post_mc req of
           Inr d \<Rightarrow>
             (pg1\<lparr>store := (store pg1)\<lparr>p_mcData := Some d\<rparr>, p_mcLoading := False\<rparr>,
              [PostMonteCarlo req])
         | Inl e \<Rightarrow> (pg1\<lparr>p_mcLoading := False\<rparr>, [PostMonteCarlo req]))"

text \<open>\<open>handleOptimize\<close>: page state, requests sent, alerts shown.\<close>

definition handleOptimize ::
  "(OptimizeRequest \<Rightarrow> string + OptimizeResponse) \<Rightarrow> (MonteCarloRequest \<Rightarrow> string + MCData) \<Rightarrow>
   PortfolioPage \<Rightarrow> PortfolioPage \<times> portfolio_call list \<times> string list" where
  "handleOptimize post_opt post_mc pg =
     (let pg1 = pg\<lparr>p_loading := True,
                    store := (store pg)\<lparr>p_mcData := None, p_sentiment := None\<rparr>\<rparr>;
          req = \<lparr>risk_tolerance = (case p_risk (store pg) of [] \<Rightarrow> None | x # _ \<Rightarrow> Some x),
                 investment_amount = p_amount (store pg),
                 investment_horizon = p_horizon (store pg),
                 num_assets = p_assets (store pg)\<rparr>
      in case post_opt req of
           Inl e \<Rightarrow>
             (pg1\<lparr>p_loading := False\<rparr>, [PostOptimize req],
              [''Optimization failed. Please check backend.''])
         | Inr resp \<Rightarrow>
             (let pg2 = pg1\<lparr>store := (store pg1)\<lparr>p_result := Some (results resp),
                                   p_tableData := table_data resp, p_beta := beta resp,
                                   p_sentiment := sentiment resp\<rparr>\<rparr>;
                  mc = runMonteCarlo post_mc pg pg2
                         (weights (portfolio_config (results resp)))
                         (selected_assets (portfolio_config (results resp)))
              in ((fst mc)\<lparr>p_loading := False\<rparr>, PostOptimize req # snd mc, [])))"

section \<open>Comparison page (pages/Comparison.tsx, state/comparisonStore.ts)\<close>

datatype LoadingStep = Idle | Quantum | Classical | Complete

text \<open>The store (fields prefixed \<open>stored\<close>) and the page's own inputs.\<close>

record 'c ComparisonState =
  storedRisk :: real
  storedAmount :: real
  storedHorizon :: real
  storedAssets :: real
  comparison :: "'c option"

record 'c ComparisonPage =
  cstore :: "'c ComparisonState"
  riskTolerance :: real
  investmentAmount :: real
  timeHorizon :: real
  numAssets :: real
  loadingStep :: LoadingStep

record CompareRequest =
  c_risk_tolerance :: real
  c_investment_amount :: real
  c_investment_horizon :: real
  c_num_assets :: real

text \<open>
  \<open>handleCompare\<close>: the inputs are saved to the store, the two timers pass, the
  compare request is sent; the endpoint's answer is the parameter \<open>post_compare\<close>.
\<close>

definition handleCompare ::
  "(CompareRequest \<Rightarrow> string + 'c) \<Rightarrow> 'c ComparisonPage \<Rightarrow> 'c ComparisonPage \<times> CompareRequest list" where
  "handleCompare post_compare pg =
     (let pg1 = pg\<lparr>loadingStep := Quantum,
                    cstore := (cstore pg)\<lparr>storedRisk := riskTolerance pg,
                                           storedAmount := investmentAmount pg,
                                           storedHorizon := timeHorizon pg,
                                           storedAssets := numAssets pg\<rparr>\<rparr>;
          pg2 = pg1\<lparr>loadingStep := Classical\<rparr>;
          req = \<lparr>c_risk_tolerance = riskTolerance pg / 100,
                 c_investment_amount = investmentAmount pg,
                 c_investment_horizon = timeHorizon pg,
                 c_num_assets = numAssets pg\<rparr>
      in case post_compare req of
           Inr d \<Rightarrow>
             (pg2\<lparr>cstore := (cstore pg2)\<lparr>comparison := Some d\<rparr>, loadingStep := Complete\<rparr>,
              [req])
         | Inl e \<Rightarrow> (pg2\<lparr>loadingStep := Idle\<rparr>, [req]))"

text \<open>
  Modelled from the spec: the optimizer's check of the tolerance, which is not part of
  the frontend sources: ``fails with InvalidToleranceError if tolerance is outside
  [0,1]''.
\<close>

datatype engine_error = InvalidToleranceError

definition check_tolerance :: "real \<Rightarrow> engine_error + real" where
  "check_tolerance t = (if t < 0 \<or> 1 < t then Inl InvalidToleranceError else Inr t)"

section \<open>Backtest page (pages/Backtest.tsx)\<close>

record PortfolioData =
  pd_weights :: "(string \<times> real) list"
  pd_tickers :: "string list"
  pd_investmentAmount :: real

record BacktestPeriod =
  startDate :: string
  endDate :: string

record 'b BacktestPage =
  portfolioData :: PortfolioData
  backtestData :: "'b option"
  bt_loading :: bool
  clearingCache :: bool
  backtestPeriod :: BacktestPeriod

record BacktestRequest =
  b_weights :: "(string \<times> real) list"
  b_tickers :: "string list"
  start_date :: string
  end_date :: string
  initial_investment :: real

text \<open>The two requests of the page: the backtest itself, and the delete of the cache.\<close>

datatype backtest_call = PostBacktest BacktestRequest | DeleteBacktestCache

definition backtest_failed_alert :: string where
  "backtest_failed_alert = ''Backtesting failed. Please try a different date range.''"

definition cache_cleared_alert :: string where
  "cache_cleared_alert =
     [CHR 0xE2, CHR 0x9C, CHR 0x85] @
     '' Cache cleared successfully! Run a new backtest to fetch fresh data.''"

definition cache_failed_alert :: string where
  "cache_failed_alert =
     [CHR 0xE2, CHR 0x9D, CHR 0x8C] @ '' Failed to clear cache. Please try again.''"

definition handleBacktest ::
  "(BacktestRequest \<Rightarrow> string + 'b) \<Rightarrow> 'b BacktestPage \<Rightarrow>
   'b BacktestPage \<times> backtest_call list \<times> string list" where
  "handleBacktest post_backtest pg =
     (let pg1 = pg\<lparr>bt_loading := True\<rparr>;
          req = \<lparr>b_weights = pd_weights (portfolioData pg), b_tickers = pd_tickers (portfolioData pg),
                 start_date = startDate (backtestPeriod pg), end_date = endDate (backtestPeriod pg),
                 initial_investment = pd_investmentAmount (portfolioData pg)\<rparr>
      in case post_backtest req of
           Inr d \<Rightarrow> (pg1\<lparr>backtestData := Some d, bt_loading := False\<rparr>, [PostBacktest req], [])
         | Inl e \<Rightarrow> (pg1\<lparr>bt_loading := False\<rparr>, [PostBacktest req], [backtest_failed_alert]))"

text \<open>
  \<open>handleClearCache\<close>: the answer to the delete request is the parameter
  \<open>delete_cache\<close> (\<open>Inr\<close> the acknowledgement, \<open>Inl\<close> a failed request).
\<close>

definition handleClearCache ::
  "string + unit \<Rightarrow> 'b BacktestPage \<Rightarrow> 'b BacktestPage \<times> backtest_call list \<times> string list" where
  "handleClearCache delete_cache pg =
     (let pg1 = pg\<lparr>clearingCache := True\<rparr>
      in case delete_cache of
           Inr ack \<Rightarrow>
             (pg1\<lparr>backtestData := None, clearingCache := False\<rparr>, [DeleteBacktestCache],
              [cache_cleared_alert])
         | Inl e \<Rightarrow> (pg1\<lparr>clearingCache := False\<rparr>, [DeleteBacktestCache], [cache_failed_alert]))"

section \<open>Percentile bands of the Monte Carlo simulator\<close>

text \<open>
  Modelled from the spec: the percentile bands that \<open>monte_carlo\<close> returns; the
  simulator is not part of the frontend sources, which only plot its output. ``Percentile
  band: the value attained at a given percentile across a simulated path ensemble, per
  time step'', ``derived by aggregating SimulationPaths at each time index''. The value
  at percentile \<open>p\<close> of the values that the paths take at one time index is read from
  the sorted values at rank \<open>p * (N - 1) div 100\<close>.
\<close>

definition values_at :: "real list list \<Rightarrow> nat \<Rightarrow> real list" where
  "values_at ps t = map (\<lambda>path. path ! t) ps"

definition percentile_value :: "nat \<Rightarrow> real list \<Rightarrow> real" where
  "percentile_value p xs = sort xs ! ((p * (length xs - 1)) div 100)"

definition percentile_path :: "nat \<Rightarrow> real list list \<Rightarrow> nat \<Rightarrow> real list" where
  "percentile_path p ps n = map (\<lambda>t. percentile_value p (values_at ps t)) [0..<n]"

definition percentile_bands :: "real list list \<Rightarrow> nat \<Rightarrow> (string \<times> real list) list" where
  "percentile_bands ps n =
     [(''5'', percentile_path 5 ps n), (''25'', percentile_path 25 ps n),
      (''50'', percentile_path 50 ps n), (''75'', percentile_path 75 ps n),
      (''95'', percentile_path 95 ps n)]"

section \<open>Horizon check of the goal simulator\<close>

text \<open>
  Modelled from the spec: the goal simulator behind \<open>GoalService.simulateGoal\<close>,
  which is not part of the frontend sources. ``Edge case: target_date in the past or
  equal to today yields a zero or near-zero horizon condition: fails with
  InvalidHorizonError rather than dividing by a zero-length period''; such a request is
  ``rejected before any computation''. \<open>parse\<close> reads the goal's target date as
  its time value (the start of that day) and \<open>today\<close> is the time value of the
  current instant, so that a date in the past or equal to today is one with
  \<open>target \<le> today\<close>. A request whose date cannot be read has no horizon; it is
  taken to be rejected the same way, as a malformed request parameter. The simulation
  proper is the parameter \<open>engine\<close>; it is given the goal and the length of the
  horizon, which is positive when it runs.
\<close>

datatype goal_error = InvalidHorizonError

definition goal_simulate ::
  "(GoalBase \<Rightarrow> int \<Rightarrow> SimulationResult) \<Rightarrow> (string \<Rightarrow> int option) \<Rightarrow> int \<Rightarrow> GoalBase \<Rightarrow>
   goal_error + SimulationResult" where
  "goal_simulate engine parse today g =
     (case parse (target_date g) of
        None \<Rightarrow> Inl InvalidHorizonError
      | Some target \<Rightarrow>
          if target \<le> today then Inl InvalidHorizonError
          else Inr (engine g (target - today)))"

section \<open>Sample inputs\<close>

text \<open>
  Concrete inputs at which the theorems below are instantiated. The dates are UTC
  midnights as millisecond time values; \<open>2027-01-01\<close> is 61 days after
  \<open>2026-11-01\<close> and \<open>2026-09-01\<close> is 61 days before it;
  \<open>2026-12-31\<close> is 60 days after it and \<open>2026-09-02\<close> is 60 days before.
  \<open>sample_today\<close> is midnight and \<open>sample_noon\<close> is noon of
  \<open>2026-11-01\<close>.
\<close>

definition sample_today :: int where
  "sample_today = 1793491200000"

definition sample_noon :: int where
  "sample_noon = 1793534400000"

definition sample_dates :: "string \<Rightarrow> int option" where
  "sample_dates =
     map_of [(''2026-11-01'', 1793491200000), (''2027-01-01'', 1798761600000),
             (''2026-09-01'', 1788220800000), (''2026-12-31'', 1798675200000),
             (''2026-09-02'', 1788307200000)]"

definition sample_goal :: "string \<Rightarrow> GoalBase" where
  "sample_goal d =
     \<lparr>name = ''House'', target_amount = 50000, target_date = d, current_savings = 5000,
      monthly_contribution = 500, risk_profile = Some ''Moderate''\<rparr>"

definition sample_projection :: "real \<Rightarrow> YearlyProjection" where
  "sample_projection a = \<lparr>year = 1, amount = a, contribution = 6000, growth = 300\<rparr>"

definition sample_simulation :: "real \<Rightarrow> SimulationResult" where
  "sample_simulation a =
     \<lparr>success_probability = 0.4, gap_amount = 12000, projected_amount_at_deadline = a,
      yearly_projections = [sample_projection a],
      scenarios = \<lparr>median = [sample_projection a], worst = [sample_projection a],
                   best = [sample_projection a]\<rparr>,
      on_track = False\<rparr>"

definition sample_engine :: "GoalBase \<Rightarrow> int \<Rightarrow> SimulationResult" where
  "sample_engine g horizon = sample_simulation 47995"

text \<open>
  Streams of events. \<open>sample_parse\<close> stands for \<open>JSON.parse\<close> on the three
  payloads that occur; the payload of the result is a number here. The same text
  arrives once in two chunks that cut through lines, and once in a single chunk; a
  third stream carries the complete event twice, a fourth ends in an error event.
\<close>

definition sample_progress :: "nat SSEMessage" where
  "sample_progress =
     \<lparr>m_type = ''progress'', m_message = Some ''Fetching prices'', m_data = None,
      m_progress = Some 40\<rparr>"

definition sample_complete :: "nat SSEMessage" where
  "sample_complete =
     \<lparr>m_type = ''complete'', m_message = None, m_data = Some 42, m_progress = None\<rparr>"

definition sample_error :: "nat SSEMessage" where
  "sample_error =
     \<lparr>m_type = ''error'', m_message = Some ''No data'', m_data = None, m_progress = None\<rparr>"

definition sample_parse :: "string \<Rightarrow> nat SSEMessage option" where
  "sample_parse =
     map_of [(''{progress}'', sample_progress), (''{complete}'', sample_complete),
             (''{error}'', sample_error)]"

definition sample_chunks :: "string list" where
  "sample_chunks =
     [''data: {prog'', ''ress}'' @ [CHR 0x0A, CHR 0x0A] @ '': ping'' @ [CHR 0x0A] @ ''da'',
      ''ta: {complete}'' @ [CHR 0x0A, CHR 0x0A]]"

definition sample_chunks_whole :: "string list" where
  "sample_chunks_whole =
     [''data: {progress}'' @ [CHR 0x0A, CHR 0x0A] @ '': ping'' @ [CHR 0x0A] @
      ''data: {complete}'' @ [CHR 0x0A, CHR 0x0A]]"



definition sample_hook :: "nat UseSSEStreamState" where
  "sample_hook = \<lparr>logs = [], isStreaming = False, result = None, error = None, progress = None\<rparr>"

text \<open>A portfolio page with the store's defaults, and what the two endpoints answer.\<close>

definition sample_portfolio :: PortfolioPage where
  "sample_portfolio =
     \<lparr>store = \<lparr>p_risk = [0.5], p_amount = 10000, p_horizon = 10, p_assets = 5,
               p_result = None, p_tableData = [], p_beta = None, p_mcData = None,
               p_sentiment = None\<rparr>,
      p_loading = False, p_mcLoading = False\<rparr>"

definition sample_optimize_response :: OptimizeResponse where
  "sample_optimize_response =
     \<lparr>results = \<lparr>portfolio_config =
                  \<lparr>weights = [(''AAPL'', 0.6), (''MSFT'', 0.4)],
                   selected_assets = [''AAPL'', ''MSFT'']\<rparr>\<rparr>,
      table_data = [], beta = Some 1.1, sentiment = None\<rparr>"

definition sample_post_optimize :: "OptimizeRequest \<Rightarrow> string + OptimizeResponse" where
  "sample_post_optimize req = Inr sample_optimize_response"

definition sample_post_monte_carlo :: "MonteCarloRequest \<Rightarrow> string + MCData" where
  "sample_post_monte_carlo req = Inl ''Network Error''"

text \<open>A comparison page with the store's defaults, and a backtest page with a result.\<close>

definition sample_comparison :: "nat ComparisonPage" where
  "sample_comparison =
     \<lparr>cstore = \<lparr>storedRisk = 50, storedAmount = 10000, storedHorizon = 5, storedAssets = 4,
                comparison = None\<rparr>,
      riskTolerance = 50, investmentAmount = 10000, timeHorizon = 5, numAssets = 4,
      loadingStep = Idle\<rparr>"

definition sample_post_compare :: "CompareRequest \<Rightarrow> string + nat" where
  "sample_post_compare req = Inr 7"

definition sample_backtest :: "nat BacktestPage" where
  "sample_backtest =
     \<lparr>portfolioData = \<lparr>pd_weights = [(''AAPL'', 0.6), (''MSFT'', 0.4)],
                       pd_tickers = [''AAPL'', ''MSFT''], pd_investmentAmount = 10000\<rparr>,
      backtestData = Some 3, bt_loading = False, clearingCache = False,
      backtestPeriod = \<lparr>startDate = ''2022-01-01'', endDate = ''2022-12-31''\<rparr>\<rparr>"

text \<open>Three simulated paths over three time points.\<close>

definition sample_paths :: "real list list" where
  "sample_paths = [[100, 90, 120], [100, 110, 80], [100, 105, 130]]"

section \<open>Properties of the goal planner\<close>

lemma calculateMonths_ge_1: "calculateMonths parse today s = Some n \<Longrightarrow> 1 \<le> n"
  by (auto simp: calculateMonths_def Let_def split: option.splits)

lemma annuity_denom_pos:
  assumes "1 \<le> n"
  shows "0 < (power_int (1 + 0.06 / 12) n - 1) / (0.06 / 12 :: real)"
proof -
  from assms have "power_int (1 + 0.06 / 12 :: real) n = (1 + 0.06 / 12) ^ nat n"
    by (simp add: power_int_def)
  moreover have "1 < (1 + 0.06 / 12 :: real) ^ nat n"
    using assms by (intro one_less_power) auto
  ultimately show ?thesis by simp
qed

lemma getScenarioMetrics_Inr:
  assumes "getScenarioMetrics parse today (Some g) (Some sim) view = Inr m"
  shows "scenario_of (scenarios sim) view \<noteq> []"
    and "gap m = max 0 (target_amount g - amount (last (scenario_of (scenarios sim) view)))"
    and "monthlyNeeded m =
      (if gap m > 0 then
         (case calculateMonths parse today (target_date g) of
            None \<Rightarrow> 0
          | Some months \<Rightarrow>
              (if (power_int (1 + 0.06 / 12) months - 1) / (0.06 / 12 :: real) > 0
               then gap m / ((power_int (1 + 0.06 / 12) months - 1) / (0.06 / 12)) else 0))
       else 0)"
proof -
  show ne: "scenario_of (scenarios sim) view \<noteq> []"
    using assms by (auto simp: getScenarioMetrics_def Let_def split: if_splits)
  define gp where "gp = max 0 (target_amount g - amount (last (scenario_of (scenarios sim) view)))"
  define needed where "needed =
      (if gp > 0 then
         (case calculateMonths parse today (target_date g) of
            None \<Rightarrow> 0
          | Some months \<Rightarrow>
              (if (power_int (1 + 0.06 / 12) months - 1) / (0.06 / 12 :: real) > 0
               then gp / ((power_int (1 + 0.06 / 12) months - 1) / (0.06 / 12)) else 0))
       else 0)"
  have "getScenarioMetrics parse today (Some g) (Some sim) view =
     Inr \<lparr>probability = Math_round (success_probability sim * 100),
          gap = gp, final_amount = amount (last (scenario_of (scenarios sim) view)),
          isGood = None, isScenarioGood = Some (gp \<le> 0), monthlyNeeded = needed\<rparr>"
    unfolding getScenarioMetrics_def Let_def gp_def needed_def using ne by simp
  with assms have m: "gap m = gp" "monthlyNeeded m = needed" by auto
  show "gap m = max 0 (target_amount g - amount (last (scenario_of (scenarios sim) view)))"
    using m(1) by (simp add: gp_def)
  show "monthlyNeeded m =
      (if gap m > 0 then
         (case calculateMonths parse today (target_date g) of
            None \<Rightarrow> 0
          | Some months \<Rightarrow>
              (if (power_int (1 + 0.06 / 12) months - 1) / (0.06 / 12 :: real) > 0
               then gap m / ((power_int (1 + 0.06 / 12) months - 1) / (0.06 / 12)) else 0))
       else 0)"
    unfolding m needed_def ..
qed

lemma sample_months_future:
  "calculateMonths sample_dates sample_today ''2027-01-01'' = Some 2"
  by (simp add: calculateMonths_def sample_dates_def sample_today_def)

lemma sample_months_past:
  "calculateMonths sample_dates sample_today ''2026-09-01'' = Some 2"
  by (simp add: calculateMonths_def sample_dates_def sample_today_def)

lemma sample_metrics_short:
  "getScenarioMetrics sample_dates sample_today (Some (sample_goal ''2027-01-01''))
     (Some (sample_simulation 47995)) Median =
   Inr \<lparr>probability = 40, gap = 2005, final_amount = 47995, isGood = None,
        isScenarioGood = Some False, monthlyNeeded = 1000\<rparr>"
  by (simp add: getScenarioMetrics_def sample_months_future sample_goal_def
      sample_simulation_def sample_projection_def Math_round_def power2_eq_square)

lemma sample_metrics_met:
  "getScenarioMetrics sample_dates sample_today (Some (sample_goal ''2027-01-01''))
     (Some (sample_simulation 60000)) Best =
   Inr \<lparr>probability = 40, gap = 0, final_amount = 60000, isGood = None,
        isScenarioGood = Some True, monthlyNeeded = 0\<rparr>"
  by (simp add: getScenarioMetrics_def sample_goal_def
      sample_simulation_def sample_projection_def Math_round_def)

text \<open>
  C1. In the scenario metrics of a goal and a simulation, when the gap is strictly
  positive and \<open>calculateMonths\<close> gives \<open>n\<close> months for the target date, the extra
  monthly amount is \<open>gap * r / ((1 + r)^n - 1)\<close> with \<open>r = 0.06 / 12\<close>; when the gap
  is zero the extra monthly amount is 0.
\<close>

theorem monthlyNeeded_annuity:
  assumes "getScenarioMetrics parse today (Some g) (Some sim) view = Inr m"
  shows "(0 < gap m \<and> calculateMonths parse today (target_date g) = Some n \<longrightarrow>
            monthlyNeeded m = gap m * (0.06 / 12) / (power_int (1 + 0.06 / 12) n - 1)) \<and>
         (gap m = 0 \<longrightarrow> monthlyNeeded m = 0)"
proof (intro conjI impI)
  assume h: "0 < gap m \<and> calculateMonths parse today (target_date g) = Some n"
  then have "1 \<le> n" using calculateMonths_ge_1 by blast
  then have "0 < (power_int (1 + 0.06 / 12) n - 1) / (0.06 / 12 :: real)"
    by (rule annuity_denom_pos)
  with h getScenarioMetrics_Inr(3)[OF assms]
  have "monthlyNeeded m = gap m / ((power_int (1 + 0.06 / 12) n - 1) / (0.06 / 12))"
    by (simp del: divide_divide_eq_left divide_divide_eq_right)
  then show "monthlyNeeded m = gap m * (0.06 / 12) / (power_int (1 + 0.06 / 12) n - 1)"
    by simp
next
  assume "gap m = 0"
  with getScenarioMetrics_Inr(3)[OF assms] show "monthlyNeeded m = 0" by simp
qed

theorem monthlyNeeded_annuity_witness:
  "getScenarioMetrics sample_dates sample_today (Some (sample_goal ''2027-01-01''))
     (Some (sample_simulation 47995)) Median =
   Inr \<lparr>probability = 40, gap = 2005, final_amount = 47995, isGood = None,
        isScenarioGood = Some False, monthlyNeeded = 1000\<rparr> \<and>
   calculateMonths sample_dates sample_today (target_date (sample_goal ''2027-01-01'')) = Some 2 \<and>
   (1000 :: real) = 2005 * (0.06 / 12) / (power_int (1 + 0.06 / 12) 2 - 1) \<and>
   getScenarioMetrics sample_dates sample_today (Some (sample_goal ''2027-01-01''))
     (Some (sample_simulation 60000)) Best =
   Inr \<lparr>probability = 40, gap = 0, final_amount = 60000, isGood = None,
        isScenarioGood = Some True, monthlyNeeded = 0\<rparr>"
proof -
  have n: "calculateMonths sample_dates sample_today (target_date (sample_goal ''2027-01-01'')) = Some 2"
    by (simp add: sample_goal_def sample_months_future)
  have v: "(1000 :: real) = 2005 * (0.06 / 12) / (power_int (1 + 0.06 / 12) 2 - 1)"
    using monthlyNeeded_annuity[OF sample_metrics_short, of 2] n by simp
  have "monthlyNeeded \<lparr>probability = 40, gap = 0, final_amount = 60000, isGood = None,
          isScenarioGood = Some True, monthlyNeeded = 0\<rparr> = 0"
    using monthlyNeeded_annuity[OF sample_metrics_met, of 2] by simp
  with n v show ?thesis
    using sample_metrics_short sample_metrics_met by simp
qed



lemma sample_months_ahead_noon:
  "calculateMonths sample_dates sample_noon ''2026-12-31'' = Some 1"
  by (simp add: calculateMonths_def sample_dates_def sample_noon_def)

lemma sample_months_back_noon:
  "calculateMonths sample_dates sample_noon ''2026-09-02'' = Some 2"
  by (simp add: calculateMonths_def sample_dates_def sample_noon_def)

text \<open>
  C9, as the code has it. For every target date that parses, \<open>calculateMonths\<close>
  returns a whole number of months that is at least 1: never zero, never an error.
  Because it takes the absolute value of the difference of the time values, two targets
  at the same distance in milliseconds before and after the current instant give the
  same count.
\<close>

theorem calculateMonths_positive_abs:
  "(parse s = Some t \<longrightarrow> (\<exists>n. calculateMonths parse today s = Some n \<and> 1 \<le> n)) \<and>
   (parse s1 = Some t1 \<and> parse s2 = Some t2 \<and> \<bar>t1 - today\<bar> = \<bar>t2 - today\<bar> \<longrightarrow>
      calculateMonths parse today s1 = calculateMonths parse today s2)"
  by (simp add: calculateMonths_def Let_def)

theorem calculateMonths_positive_abs_witness:
  "sample_dates ''2027-01-01'' = Some 1798761600000 \<and>
   sample_dates ''2026-09-01'' = Some 1788220800000 \<and>
   \<bar>1798761600000 - sample_today\<bar> = \<bar>1788220800000 - sample_today\<bar> \<and>
   calculateMonths sample_dates sample_today ''2027-01-01'' = Some 2 \<and>
   calculateMonths sample_dates sample_today ''2026-09-01'' = Some 2"
proof -
  have d: "sample_dates ''2027-01-01'' = Some 1798761600000"
    "sample_dates ''2026-09-01'' = Some 1788220800000"
    "\<bar>1798761600000 - sample_today\<bar> = \<bar>1788220800000 - sample_today\<bar>"
    by (simp_all add: sample_dates_def sample_today_def)
  from calculateMonths_positive_abs[of sample_dates "''2027-01-01''" 1798761600000
      sample_today "''2027-01-01''" 1798761600000 "''2026-09-01''" 1788220800000] d
  have "calculateMonths sample_dates sample_today ''2027-01-01'' =
        calculateMonths sample_dates sample_today ''2026-09-01''"
    by blast
  with d show ?thesis by (simp add: sample_months_past)
qed

text \<open>
  C9, as stated, fails for dates counted in days: at noon of \<open>2026-11-01\<close> the
  date 60 days ahead is 59.5 days away, which rounds up to 60 days and gives 1 month,
  and the date 60 days back is 60.5 days away, which rounds up to 61 days and gives 2.
\<close>

theorem calculateMonths_days_not_symmetric:
  "sample_dates ''2026-12-31'' = Some (sample_today + 60 * 86400000) \<and>
   sample_dates ''2026-09-02'' = Some (sample_today - 60 * 86400000) \<and>
   sample_noon = sample_today + 43200000 \<and>
   calculateMonths sample_dates sample_noon ''2026-12-31'' = Some 1 \<and>
   calculateMonths sample_dates sample_noon ''2026-09-02'' = Some 2"
  by (simp add: sample_months_ahead_noon sample_months_back_noon)
    (simp add: sample_dates_def sample_today_def sample_noon_def)

text \<open>
  C2. A goal simulation whose target date is in the past or equal to today fails with
  \<open>InvalidHorizonError\<close>; no result is computed.
\<close>

theorem past_target_rejected:
  assumes "parse (target_date g) = Some t" and "t \<le> today"
  shows "goal_simulate engine parse today g = Inl InvalidHorizonError"
  using assms by (simp add: goal_simulate_def)

theorem past_target_rejected_witness:
  "sample_dates (target_date (sample_goal ''2026-11-01'')) = Some sample_today \<and>
   sample_today \<le> sample_today \<and>
   goal_simulate sample_engine sample_dates sample_today (sample_goal ''2026-11-01'') =
     Inl InvalidHorizonError \<and>
   sample_dates (target_date (sample_goal ''2026-09-01'')) = Some 1788220800000 \<and>
   1788220800000 \<le> sample_today \<and>
   goal_simulate sample_engine sample_dates sample_today (sample_goal ''2026-09-01'') =
     Inl InvalidHorizonError"
proof -
  have a: "sample_dates (target_date (sample_goal ''2026-11-01'')) = Some sample_today"
    by (simp add: sample_dates_def sample_goal_def sample_today_def)
  have b: "sample_dates (target_date (sample_goal ''2026-09-01'')) = Some 1788220800000"
    by (simp add: sample_dates_def sample_goal_def)
  have c: "1788220800000 \<le> sample_today" by (simp add: sample_today_def)
  from past_target_rejected[where parse = sample_dates and today = sample_today
      and g = "sample_goal ''2026-11-01''" and t = sample_today and engine = sample_engine]
    past_target_rejected[where parse = sample_dates and today = sample_today
      and g = "sample_goal ''2026-09-01''" and t = 1788220800000 and engine = sample_engine]
    a b c
  show ?thesis by simp
qed

section \<open>Properties of the event stream hook\<close>

lemma split_lines_ne [simp]: "split_lines s \<noteq> []"
  by (induction s) (auto split: list.splits)

lemma split_lines_no_nl: "CHR 0x0A \<notin> set s \<Longrightarrow> split_lines s = [s]"
  by (induction s) auto

lemma last_split_lines_no_nl: "CHR 0x0A \<notin> set (last (split_lines s))"
proof (induction s)
  case Nil show ?case by simp
next
  case (Cons c s)
  obtain l ls where sl: "split_lines s = l # ls"
    by (cases "split_lines s") auto
  with Cons show ?case by (cases "ls = []") auto
qed

lemma split_lines_append:
  "split_lines (a @ b) = butlast (split_lines a) @ split_lines (last (split_lines a) @ b)"
proof (induction a)
  case Nil show ?case by simp
next
  case (Cons c a)
  obtain l ls where sl: "split_lines a = l # ls"
    by (cases "split_lines a") auto
  show ?case
  proof (cases "c = CHR 0x0A")
    case True then show ?thesis using Cons by simp
  next
    case False
    show ?thesis
    proof (cases "ls = []")
      case True
      with sl Cons have "split_lines (a @ b) = split_lines (l @ b)" by simp
      with False sl True show ?thesis by simp
    next
      case ne: False
      with sl Cons have "split_lines (a @ b) = l # butlast ls @ split_lines (last ls @ b)" by simp
      with False sl ne show ?thesis by simp
    qed
  qed
qed

lemma processLine_buffer:
  "processLine parse (r\<lparr>messageBuffer := b\<rparr>) l = (processLine parse r l)\<lparr>messageBuffer := b\<rparr>"
  by (simp add: processLine_def handleMessage_def noteMessage_def noteProgress_def Let_def
      split: option.splits)

lemma processLines_buffer:
  "foldl (processLine parse) (r\<lparr>messageBuffer := b\<rparr>) ls =
   (foldl (processLine parse) r ls)\<lparr>messageBuffer := b\<rparr>"
  by (induction ls arbitrary: r) (simp_all add: processLine_buffer)

lemma readChunks_lines:
  "CHR 0x0A \<notin> set (messageBuffer r) \<Longrightarrow>
   foldl (readChunk parse) r chunks =
   (foldl (processLine parse) r (butlast (split_lines (messageBuffer r @ concat chunks))))
     \<lparr>messageBuffer := last (split_lines (messageBuffer r @ concat chunks))\<rparr>"
proof (induction chunks arbitrary: r)
  case Nil
  then show ?case by (simp add: split_lines_no_nl)
next
  case (Cons c cs)
  let ?L = "split_lines (messageBuffer r @ c)"
  let ?r1 = "foldl (processLine parse) r (butlast ?L)"
  have rc: "readChunk parse r c = ?r1\<lparr>messageBuffer := last ?L\<rparr>"
    by (simp add: readChunk_def Let_def processLines_buffer)
  have nl: "CHR 0x0A \<notin> set (messageBuffer (?r1\<lparr>messageBuffer := last ?L\<rparr>))"
    by (simp add: last_split_lines_no_nl)
  have sp: "split_lines (messageBuffer r @ c @ concat cs) =
            butlast ?L @ split_lines (last ?L @ concat cs)"
    using split_lines_append[of "messageBuffer r @ c" "concat cs"] by simp
  have "foldl (readChunk parse) r (c # cs) =
        foldl (readChunk parse) (?r1\<lparr>messageBuffer := last ?L\<rparr>) cs"
    by (simp add: rc)
  also have "\<dots> = (foldl (processLine parse) (?r1\<lparr>messageBuffer := last ?L\<rparr>)
                      (butlast (split_lines (last ?L @ concat cs))))
                   \<lparr>messageBuffer := last (split_lines (last ?L @ concat cs))\<rparr>"
    using Cons.IH[OF nl] by simp
  also have "\<dots> = (foldl (processLine parse) r
                       (butlast (split_lines (messageBuffer r @ concat (c # cs)))))
     \<lparr>messageBuffer := last (split_lines (messageBuffer r @ concat (c # cs)))\<rparr>"
    by (simp add: sp processLines_buffer butlast_append)
  finally show ?case .
qed




lemma stream_concat:
  "stream autoReset parse st chunks ending = stream autoReset parse st [concat chunks] ending"
proof -
  have "messageBuffer (stream_start autoReset st) = []"
    by (simp add: stream_start_def)
  then have eq: "foldl (readChunk parse) (stream_start autoReset st) chunks =
        foldl (readChunk parse) (stream_start autoReset st) [concat chunks]"
    using readChunks_lines[of "stream_start autoReset st" parse chunks]
      readChunks_lines[of "stream_start autoReset st" parse "[concat chunks]"]
    by simp
  show ?thesis
    unfolding stream_def Let_def eq by (rule refl)
qed



lemma sample_concat: "concat sample_chunks = concat sample_chunks_whole"
  by (simp add: sample_chunks_def sample_chunks_whole_def)











text \<open>
  C10. Two chunk sequences with the same concatenation leave \<open>stream\<close> in the
  same final state (hook state with logs, result, error and progress, the callback
  trace, the returned data and the remaining buffer), whatever way the run ends; and a
  line that does not start with \<open>data: \<close> changes nothing.
\<close>

theorem stream_chunking_invariant:
  "(concat chunks1 = concat chunks2 \<longrightarrow>
      stream autoReset parse st chunks1 ending = stream autoReset parse st chunks2 ending) \<and>
   (take 6 line \<noteq> ''data: '' \<longrightarrow> processLine parse r line = r)"
proof (intro conjI impI)
  assume "concat chunks1 = concat chunks2"
  then show "stream autoReset parse st chunks1 ending = stream autoReset parse st chunks2 ending"
    using stream_concat[of autoReset parse st chunks1 ending]
      stream_concat[of autoReset parse st chunks2 ending] by simp
next
  assume "take 6 line \<noteq> ''data: ''"
  then show "processLine parse r line = r" by (simp add: processLine_def)
qed

theorem stream_chunking_invariant_witness:
  "concat sample_chunks = concat sample_chunks_whole \<and>
   stream False sample_parse sample_hook sample_chunks Done =
     stream False sample_parse sample_hook sample_chunks_whole Done \<and>
   take 6 '': ping'' \<noteq> ''data: '' \<and>
   processLine sample_parse (stream_start False sample_hook) '': ping'' =
     stream_start False sample_hook"
  using stream_chunking_invariant[of sample_chunks sample_chunks_whole False sample_parse
      sample_hook Done "'': ping''" "stream_start False sample_hook"] sample_concat
  by simp

section \<open>Properties of the pages\<close>

lemma handleOptimize_calls:
  assumes "post_opt \<lparr>risk_tolerance = (case p_risk (store pg) of [] \<Rightarrow> None | x # xs \<Rightarrow> Some x),
             investment_amount = p_amount (store pg), investment_horizon = p_horizon (store pg),
             num_assets = p_assets (store pg)\<rparr> = Inr resp"
  shows "fst (snd (handleOptimize post_opt post_mc pg)) =
     [PostOptimize \<lparr>risk_tolerance = (case p_risk (store pg) of [] \<Rightarrow> None | x # xs \<Rightarrow> Some x),
             investment_amount = p_amount (store pg), investment_horizon = p_horizon (store pg),
             num_assets = p_assets (store pg)\<rparr>,
      PostMonteCarlo \<lparr>mc_weights = weights (portfolio_config (results resp)),
             mc_investment_amount = p_amount (store pg),
             mc_investment_horizon = p_horizon (store pg),
             mc_tickers = selected_assets (portfolio_config (results resp))\<rparr>]"
  using assms
  by (simp add: handleOptimize_def runMonteCarlo_def Let_def split: sum.splits)

text \<open>
  C6. When \<open>handleOptimize\<close> has sent the optimize request \<open>req\<close> and the
  endpoint answered it with \<open>resp\<close>, the requests that follow are exactly one
  Monte Carlo request, carrying the weights and the selected assets of the response's
  \<open>portfolio_config\<close> and the investment amount and horizon of \<open>req\<close>.
\<close>

theorem optimize_feeds_monte_carlo:
  assumes "fst (snd (handleOptimize post_opt post_mc pg)) = PostOptimize req # rest"
    and "post_opt req = Inr resp"
  shows "rest = [PostMonteCarlo \<lparr>mc_weights = weights (portfolio_config (results resp)),
                                 mc_investment_amount = investment_amount req,
                                 mc_investment_horizon = investment_horizon req,
                                 mc_tickers = selected_assets (portfolio_config (results resp))\<rparr>]"
proof -
  let ?req = "\<lparr>risk_tolerance = (case p_risk (store pg) of [] \<Rightarrow> None | x # xs \<Rightarrow> Some x),
             investment_amount = p_amount (store pg), investment_horizon = p_horizon (store pg),
             num_assets = p_assets (store pg)\<rparr>"
  have "hd (fst (snd (handleOptimize post_opt post_mc pg))) = PostOptimize ?req"
    by (simp add: handleOptimize_def Let_def split: sum.splits)
  with assms(1) have req: "req = ?req" by simp
  with assms(2) have "post_opt ?req = Inr resp" by simp
  with handleOptimize_calls[of post_opt pg resp post_mc] assms(1) req show ?thesis by simp
qed

theorem optimize_feeds_monte_carlo_witness:
  "fst (snd (handleOptimize sample_post_optimize sample_post_monte_carlo sample_portfolio)) =
     [PostOptimize \<lparr>risk_tolerance = Some 0.5, investment_amount = 10000,
                    investment_horizon = 10, num_assets = 5\<rparr>,
      PostMonteCarlo \<lparr>mc_weights = [(''AAPL'', 0.6), (''MSFT'', 0.4)],
                      mc_investment_amount = 10000, mc_investment_horizon = 10,
                      mc_tickers = [''AAPL'', ''MSFT'']\<rparr>] \<and>
   sample_post_optimize \<lparr>risk_tolerance = Some 0.5, investment_amount = 10000,
                    investment_horizon = 10, num_assets = 5\<rparr> = Inr sample_optimize_response"
proof -
  have c: "fst (snd (handleOptimize sample_post_optimize sample_post_monte_carlo sample_portfolio)) =
     PostOptimize \<lparr>risk_tolerance = Some 0.5, investment_amount = 10000,
                    investment_horizon = 10, num_assets = 5\<rparr> #
     snd (runMonteCarlo sample_post_monte_carlo sample_portfolio
       (sample_portfolio\<lparr>p_loading := True,
          store := (store sample_portfolio)\<lparr>p_mcData := None, p_sentiment := None,
             p_result := Some (results sample_optimize_response),
             p_tableData := table_data sample_optimize_response,
             p_beta := beta sample_optimize_response,
             p_sentiment := sentiment sample_optimize_response\<rparr>\<rparr>)
       (weights (portfolio_config (results sample_optimize_response)))
       (selected_assets (portfolio_config (results sample_optimize_response))))"
    by (simp add: handleOptimize_def Let_def sample_post_optimize_def sample_portfolio_def)
  have r: "sample_post_optimize \<lparr>risk_tolerance = Some 0.5, investment_amount = 10000,
                    investment_horizon = 10, num_assets = 5\<rparr> = Inr sample_optimize_response"
    by (simp add: sample_post_optimize_def)
  from optimize_feeds_monte_carlo[OF c r] c r show ?thesis
    by (simp add: sample_optimize_response_def)
qed

lemma handleCompare_requests:
  "snd (handleCompare post_compare pg) =
     [\<lparr>c_risk_tolerance = riskTolerance pg / 100, c_investment_amount = investmentAmount pg,
       c_investment_horizon = timeHorizon pg, c_num_assets = numAssets pg\<rparr>]"
  by (simp add: handleCompare_def Let_def split: sum.splits)

text \<open>
  C7. For a slider value between 0 and 100, \<open>handleCompare\<close> sends exactly one
  request, whose \<open>risk_tolerance\<close> is the value divided by 100; it lies between 0
  and 1, so the optimizer's tolerance check accepts it.
\<close>

theorem compare_tolerance_in_range:
  assumes "0 \<le> riskTolerance pg" "riskTolerance pg \<le> 100"
  shows "snd (handleCompare post_compare pg) =
           [\<lparr>c_risk_tolerance = riskTolerance pg / 100, c_investment_amount = investmentAmount pg,
             c_investment_horizon = timeHorizon pg, c_num_assets = numAssets pg\<rparr>] \<and>
         0 \<le> riskTolerance pg / 100 \<and> riskTolerance pg / 100 \<le> 1 \<and>
         check_tolerance (riskTolerance pg / 100) = Inr (riskTolerance pg / 100)"
  using assms by (simp add: handleCompare_requests check_tolerance_def)

theorem compare_tolerance_in_range_witness:
  "0 \<le> riskTolerance sample_comparison \<and> riskTolerance sample_comparison \<le> 100 \<and>
   snd (handleCompare sample_post_compare sample_comparison) =
     [\<lparr>c_risk_tolerance = 0.5, c_investment_amount = 10000, c_investment_horizon = 5,
       c_num_assets = 4\<rparr>] \<and>
   check_tolerance 0.5 = Inr 0.5"
proof -
  have h: "0 \<le> riskTolerance sample_comparison" "riskTolerance sample_comparison \<le> 100"
    by (simp_all add: sample_comparison_def)
  from compare_tolerance_in_range[OF h, of sample_post_compare] h show ?thesis
    by (simp add: sample_comparison_def)
qed

text \<open>
  C8. \<open>handleClearCache\<close> sends exactly the delete request for the cache. Dates,
  portfolio data and the backtest's loading flag are as before and \<open>clearingCache\<close>
  ends false; on acknowledgement the stored backtest result is \<open>null\<close>, on failure
  it is unchanged.
\<close>

theorem clear_cache_frame:
  assumes "handleClearCache delete_cache pg = (pg', calls, alerts)"
  shows "calls = [DeleteBacktestCache] \<and>
         backtestPeriod pg' = backtestPeriod pg \<and> portfolioData pg' = portfolioData pg \<and>
         bt_loading pg' = bt_loading pg \<and> \<not> clearingCache pg' \<and>
         (\<forall>ack. delete_cache = Inr ack \<longrightarrow> backtestData pg' = None) \<and>
         (\<forall>e. delete_cache = Inl e \<longrightarrow> backtestData pg' = backtestData pg)"
  using assms
  by (auto simp: handleClearCache_def Let_def split: sum.splits)

theorem clear_cache_frame_witness:
  "handleClearCache (Inr ()) sample_backtest =
     (sample_backtest\<lparr>backtestData := None\<rparr>, [DeleteBacktestCache], [cache_cleared_alert]) \<and>
   handleClearCache (Inl ''Network Error'') sample_backtest =
     (sample_backtest, [DeleteBacktestCache], [cache_failed_alert])"
proof -
  have a: "handleClearCache (Inr ()) sample_backtest =
     (sample_backtest\<lparr>backtestData := None\<rparr>, [DeleteBacktestCache], [cache_cleared_alert])"
    by (simp add: handleClearCache_def sample_backtest_def)
  have b: "handleClearCache (Inl ''Network Error'') sample_backtest =
     (sample_backtest, [DeleteBacktestCache], [cache_failed_alert])"
    by (simp add: handleClearCache_def sample_backtest_def)
  from clear_cache_frame[OF a] clear_cache_frame[OF b] a b show ?thesis by simp
qed

section \<open>Percentile bands\<close>

lemma percentile_value_mono:
  assumes "p \<le> q" "q \<le> 100" "xs \<noteq> []"
  shows "percentile_value p xs \<le> percentile_value q xs"
proof -
  have "(q * (length xs - 1)) div 100 \<le> (100 * (length xs - 1)) div 100"
    using assms(2) by (intro div_le_mono mult_le_mono1)
  then have q: "(q * (length xs - 1)) div 100 < length (sort xs)"
    using assms(3) by (cases xs) auto
  have "(p * (length xs - 1)) div 100 \<le> (q * (length xs - 1)) div 100"
    using assms(1) by (intro div_le_mono mult_le_mono1)
  then show ?thesis
    unfolding percentile_value_def using q sorted_sort[of xs] by (intro sorted_nth_mono) auto
qed

text \<open>
  C5. For a non-empty ensemble of paths, the five bands are ordered at every time
  index: 5th \<le> 25th \<le> 50th \<le> 75th \<le> 95th.
\<close>

theorem percentile_bands_ordered:
  assumes "percentile_bands ps n =
             [(''5'', b5), (''25'', b25), (''50'', b50), (''75'', b75), (''95'', b95)]"
    and "ps \<noteq> []" and "t < n"
  shows "b5 ! t \<le> b25 ! t \<and> b25 ! t \<le> b50 ! t \<and> b50 ! t \<le> b75 ! t \<and> b75 ! t \<le> b95 ! t"
proof -
  have ne: "values_at ps t \<noteq> []" using assms(2) by (simp add: values_at_def)
  have nth: "\<And>p. percentile_path p ps n ! t = percentile_value p (values_at ps t)"
    using assms(3) by (simp add: percentile_path_def)
  from assms(1) have b: "b5 = percentile_path 5 ps n" "b25 = percentile_path 25 ps n"
    "b50 = percentile_path 50 ps n" "b75 = percentile_path 75 ps n"
    "b95 = percentile_path 95 ps n"
    by (simp_all add: percentile_bands_def)
  show ?thesis unfolding b nth by (intro conjI percentile_value_mono ne) simp_all
qed

lemma sample_bands:
  "percentile_bands sample_paths 3 =
     [(''5'', [100, 90, 80]), (''25'', [100, 90, 80]), (''50'', [100, 105, 120]),
      (''75'', [100, 105, 120]), (''95'', [100, 105, 120])]"
  by (simp add: percentile_bands_def percentile_path_def percentile_value_def values_at_def
      sample_paths_def upt_rec)

theorem percentile_bands_ordered_witness:
  "percentile_bands sample_paths 3 =
     [(''5'', [100, 90, 80]), (''25'', [100, 90, 80]), (''50'', [100, 105, 120]),
      (''75'', [100, 105, 120]), (''95'', [100, 105, 120])] \<and>
   sample_paths \<noteq> [] \<and> (1 :: nat) < 3 \<and>
   [100, 90, 80 :: real] ! 1 \<le> [100, 105, 120] ! 1"
proof -
  have ne: "sample_paths \<noteq> []" by (simp add: sample_paths_def)
  have lt: "(1 :: nat) < 3" by simp
  from percentile_bands_ordered[OF sample_bands ne lt] sample_bands ne show ?thesis by simp
qed

end
